theory Spec2Isabelle
  imports Main
begin

section \<open>JavaScript values\<close>

text \<open>
  The model follows the second revision of \<^verbatim>\<open>index.js\<close> in the source file (sync types
  0, 1 and 2, the registry a private Map); the first revision, with a boolean
  \<open>isShared\<close>, stands before it in the same file.

  The program is dynamically typed and checks its arguments at run time
  (\<^verbatim>\<open>typeof key !== "string"\<close>, \<^verbatim>\<open>Number.isInteger(newAmount)\<close>,
  \<^verbatim>\<open>Object.prototype.toString.call(newWallet) === "[object Object]"\<close>), so the arguments
  it checks are values of one type \<open>jsval\<close>. Currency keys given to the wallet
  functions and to the read accessors are strings, as their documentation says.

  \<^item> Numbers are doubles. \<open>JInt n\<close> is the finite number whose value is the integer
    \<open>n\<close>: exactly the numbers for which \<^verbatim>\<open>Number.isInteger\<close> holds. It is a number of
    JavaScript when \<open>n\<close> is a double (\<open>isDouble n\<close>). \<open>JFraction\<close> is a finite number
    that is not an integer (which one plays no role), \<open>JInfinity True\<close> and
    \<open>JInfinity False\<close> are \<open>Infinity\<close> and \<open>-Infinity\<close>, \<open>JNaN\<close> is \<open>NaN\<close>.
  \<^item> \<open>JObj own inherited\<close> is an object whose class is \<open>Object\<close>: its own enumerable
    properties, and the enumerable properties it inherits from its prototype chain,
    each in enumeration order. An object literal or a parsed JSON text inherits none.
    Property values are plain data: no getters, no proxies.
  \<^item> \<open>JObjectPrototype\<close> is the object \<^verbatim>\<open>Object.prototype\<close>, which reading the property
    \<open>__proto__\<close> of a wallet returns; \<open>JFunction m\<close> is the method \<open>m\<close> of it.
  \<^item> \<open>JArr\<close> is an array.
\<close>

datatype jsval =
    JUndefined
  | JNull
  | JBool bool
  | JInt int
  | JFraction
  | JInfinity bool
  | JNaN
  | JStr string
  | JArr "jsval list"
  | JObj "(string \<times> jsval) list" "(string \<times> jsval) list"
  | JObjectPrototype
  | JFunction string

text \<open>\<^verbatim>\<open>Number.isInteger(v)\<close>\<close>

fun isInteger :: "jsval \<Rightarrow> bool" where
  "isInteger (JInt n) = True"
| "isInteger v = False"

text \<open>\<^verbatim>\<open>typeof v === "string"\<close>\<close>

fun isString :: "jsval \<Rightarrow> bool" where
  "isString (JStr s) = True"
| "isString v = False"

text \<open>\<^verbatim>\<open>Object.prototype.toString.call(v) === "[object Object]"\<close>: arrays answer
  \<^verbatim>\<open>[object Array]\<close>, functions \<^verbatim>\<open>[object Function]\<close>, \<open>null\<close> and \<open>undefined\<close>
  \<^verbatim>\<open>[object Null]\<close> and \<^verbatim>\<open>[object Undefined]\<close>, numbers, strings and booleans their own
  tags.\<close>

fun isPlainObject :: "jsval \<Rightarrow> bool" where
  "isPlainObject (JObj own inherited) = True"
| "isPlainObject JObjectPrototype = True"
| "isPlainObject v = False"

text \<open>The payload of a value already checked to be a string or an integer.\<close>

fun stringOf :: "jsval \<Rightarrow> string" where
  "stringOf (JStr s) = s"
| "stringOf v = []"

fun intOf :: "jsval \<Rightarrow> int" where
  "intOf (JInt n) = n"
| "intOf v = 0"

text \<open>
  The enumerable properties of an object as \<^verbatim>\<open>for (const key in obj)\<close> and \<^verbatim>\<open>obj[key]\<close>
  see them: the own ones first, then the inherited ones that no own one hides.
  \<^verbatim>\<open>Object.prototype\<close> has none.
\<close>

fun entriesOf :: "jsval \<Rightarrow> (string \<times> jsval) list" where
  "entriesOf (JObj own inherited) =
     own @ filter (\<lambda>kv. fst kv \<notin> set (map fst own)) inherited"
| "entriesOf v = []"

subsection \<open>Doubles\<close>

text \<open>The number of binary digits of a positive integer.\<close>

function bitLength :: "int \<Rightarrow> nat" where
  "bitLength m = (if m \<le> 0 then 0 else Suc (bitLength (m div 2)))"
  by pat_completeness auto
termination
  by (relation "measure nat") auto

text \<open>
  The double nearest to an integer \<open>x\<close>, as the addition of two doubles with the exact
  sum \<open>x\<close> returns it: \<open>x\<close> itself below \<open>2^53\<close>; above, \<open>x\<close> rounded to 53 significant
  binary digits, a tie going to the even one; \<open>None\<close>, which is an infinity, when the
  rounded magnitude reaches \<open>2^1024\<close>.
\<close>

definition roundDouble :: "int \<Rightarrow> int option" where
  "roundDouble x =
     (let m = \<bar>x\<bar> in
      if m < 2 ^ 53 then Some x
      else
        let e = bitLength m - 53;
            q = m div 2 ^ e;
            r = m mod 2 ^ e;
            h = 2 ^ (e - 1);
            q' = (if r > h \<or> (r = h \<and> odd q) then q + 1 else q);
            y = q' * 2 ^ e
        in if y \<ge> 2 ^ 1024 then None
           else Some (if x < 0 then - y else y))"

text \<open>An integer that is a double.\<close>

definition isDouble :: "int \<Rightarrow> bool" where
  "isDouble n = (roundDouble n = Some n)"

text \<open>
  What a property of a wallet holds. Every assignment to one in the source stores a
  value that passed \<^verbatim>\<open>Number.isInteger\<close>, or the sum of the stored value and such a
  value: an integer, or an infinity once a sum has left the range of the doubles.
\<close>

datatype balance = Finite int | Infinite bool

fun numberOf :: "balance \<Rightarrow> jsval" where
  "numberOf (Finite n) = JInt n"
| "numberOf (Infinite positive) = JInfinity positive"

text \<open>
  \<^verbatim>\<open>this._wallet[currencyKey] += amount\<close> for a stored balance and an \<open>amount\<close> that is
  the integer \<open>b\<close> (the guard \<^verbatim>\<open>Number.isInteger(amount)\<close> stands before it): the sum of
  two doubles, rounded; an infinity stays what it is.
\<close>

fun js_add :: "balance \<Rightarrow> int \<Rightarrow> balance" where
  "js_add (Finite a) b =
     (case roundDouble (a + b) of Some r \<Rightarrow> Finite r | None \<Rightarrow> Infinite (0 < a + b))"
| "js_add (Infinite positive) b = Infinite positive"

subsection \<open>Objects and Maps as insertion-ordered association lists\<close>

text \<open>
  \<^verbatim>\<open>map.set(k, v)\<close>, and \<^verbatim>\<open>obj[k] = v\<close> for an ordinary property: an existing key keeps
  its place and takes the new value, a new key goes last. (JavaScript enumerates
  integer-like property names first; that order is not modelled.)
\<close>

fun assoc_set :: "'k \<Rightarrow> 'v \<Rightarrow> ('k \<times> 'v) list \<Rightarrow> ('k \<times> 'v) list" where
  "assoc_set k v [] = [(k, v)]"
| "assoc_set k v (kv # kvs) =
     (if fst kv = k then (k, v) # kvs else kv # assoc_set k v kvs)"

text \<open>\<^verbatim>\<open>map.has(k)\<close>, and whether an object has an own property \<open>k\<close>.\<close>

definition has_key :: "('k \<times> 'v) list \<Rightarrow> 'k \<Rightarrow> bool" where
  "has_key kvs k = (map_of kvs k \<noteq> None)"

text \<open>\<^verbatim>\<open>newWallet[key]\<close> for a key that \<^verbatim>\<open>for..in\<close> has listed: the value of the
  enumerable property.\<close>

definition prop_get :: "(string \<times> jsval) list \<Rightarrow> string \<Rightarrow> jsval" where
  "prop_get obj k = (case map_of obj k of Some v \<Rightarrow> v | None \<Rightarrow> JUndefined)"

text \<open>\<^verbatim>\<open>throw new Error(message)\<close>, and the \<open>TypeError\<close> of calling what is no function
  or reading a property of \<open>undefined\<close>.\<close>

datatype error = Error string | TypeError string

subsection \<open>The wallet object\<close>

text \<open>
  A wallet is created as \<^verbatim>\<open>{}\<close>, so its prototype is \<^verbatim>\<open>Object.prototype\<close>, and it is
  given by its own properties. Three things go through the prototype:

  \<^item> \<^verbatim>\<open>this._wallet.hasOwnProperty(key)\<close> looks the method up on the wallet. An own
    property named \<open>hasOwnProperty\<close> hides the method; its value is a number, and the
    call throws a \<open>TypeError\<close>.
  \<^item> \<^verbatim>\<open>this._wallet["__proto__"] = v\<close> runs the setter that \<^verbatim>\<open>Object.prototype\<close> has
    for \<open>__proto__\<close>, which ignores a number: nothing is stored. (A wallet that had
    an own property of that name would take the value; no assignment makes one.)
  \<^item> \<^verbatim>\<open>this._wallet[key]\<close> for a key the wallet does not own returns what
    \<^verbatim>\<open>Object.prototype\<close> has: itself for \<open>__proto__\<close>, a method for the names of its
    methods, \<open>undefined\<close> otherwise.
\<close>

type_synonym jswallet = "(string \<times> balance) list"

definition objectPrototypeMethods :: "string list" where
  "objectPrototypeMethods =
     [''constructor'', ''hasOwnProperty'', ''isPrototypeOf'', ''propertyIsEnumerable'',
      ''toLocaleString'', ''toString'', ''valueOf'', ''__defineGetter__'',
      ''__defineSetter__'', ''__lookupGetter__'', ''__lookupSetter__'']"

definition wallet_hasOwnProperty :: "jswallet \<Rightarrow> string \<Rightarrow> error + bool" where
  "wallet_hasOwnProperty w key =
     (if has_key w ''hasOwnProperty''
      then Inl (TypeError ''this._wallet.hasOwnProperty is not a function'')
      else Inr (has_key w key))"

definition wallet_get :: "jswallet \<Rightarrow> string \<Rightarrow> jsval" where
  "wallet_get w key =
     (case map_of w key of
        Some b \<Rightarrow> numberOf b
      | None \<Rightarrow>
          if key = ''__proto__'' then JObjectPrototype
          else if key \<in> set objectPrototypeMethods then JFunction key
          else JUndefined)"

definition wallet_set :: "jswallet \<Rightarrow> string \<Rightarrow> balance \<Rightarrow> jswallet" where
  "wallet_set w key b =
     (if key = ''__proto__'' \<and> \<not> has_key w key then w else assoc_set key b w)"

section \<open>The currency registry (class CurrencyScript)\<close>

definition SYNC_TYPE_NONE :: int where "SYNC_TYPE_NONE = 0"
definition SYNC_TYPE_EVERYONE :: int where "SYNC_TYPE_EVERYONE = 1"
definition SYNC_TYPE_PLAYER :: int where "SYNC_TYPE_PLAYER = 2"

record currency =
  name :: string
  syncType :: int
  syncKey :: string

text \<open>
  What \<^verbatim>\<open>emit\<close> hands to the listeners: the event name with its arguments. A player
  argument is given by the player's identifier, a wallet by its contents at the
  moment of the call.
\<close>

datatype event =
    CurrencyDefined string string int string
  | WalletReplaced nat jswallet jswallet
  | CurrencyUpdated nat string jsval jsval string

text \<open>The registry: the private Map \<^verbatim>\<open>#currencies\<close>, and the events emitted so far.\<close>

record script =
  currencies :: "(string \<times> currency) list"
  events :: "event list"

definition emit :: "script \<Rightarrow> event \<Rightarrow> script" where
  "emit s e = s\<lparr>events := events s @ [e]\<rparr>"

definition hasCurrency :: "script \<Rightarrow> string \<Rightarrow> bool" where
  "hasCurrency s key = has_key (currencies s) key"

text \<open>\<^verbatim>\<open>CurrencyScript.getCurrency(key)\<close>: \<open>None\<close> is \<open>undefined\<close>.\<close>

definition getCurrency_registry :: "script \<Rightarrow> string \<Rightarrow> currency option" where
  "getCurrency_registry s key = map_of (currencies s) key"

definition getAllCurrencies :: "script \<Rightarrow> string list" where
  "getAllCurrencies s = map fst (currencies s)"

definition getCurrencyName :: "script \<Rightarrow> string \<Rightarrow> string" where
  "getCurrencyName s key =
     (case getCurrency_registry s key of Some c \<Rightarrow> name c | None \<Rightarrow> ''Invalid Currency'')"

definition getCurrencySyncType :: "script \<Rightarrow> string \<Rightarrow> int" where
  "getCurrencySyncType s key =
     (case getCurrency_registry s key of Some c \<Rightarrow> syncType c | None \<Rightarrow> SYNC_TYPE_NONE)"

definition getCurrencySyncKey :: "script \<Rightarrow> string \<Rightarrow> string option" where
  "getCurrencySyncKey s key =
     (case getCurrency_registry s key of Some c \<Rightarrow> Some (syncKey c) | None \<Rightarrow> None)"

text \<open>
  \<^verbatim>\<open>addCurrency(key, name, syncType)\<close>. The result is the thrown error or the returned
  record, together with the registry after the call. The checks run in the source's
  order: the test for an existing key stands between the two tests of \<open>syncType\<close>.
\<close>

definition addCurrency ::
  "script \<Rightarrow> jsval \<Rightarrow> jsval \<Rightarrow> jsval \<Rightarrow> (error + currency) \<times> script" where
  "addCurrency s key nm sType =
     (if \<not> isString key \<or> length (stringOf key) < 1 then
        (Inl (Error ''key is not a string/is an empty string''), s)
      else if \<not> isString nm \<or> length (stringOf nm) < 1 then
        (Inl (Error ''name is not a string/is an empty string''), s)
      else if \<not> isInteger sType then
        (Inl (Error ''syncType is not an integer''), s)
      else if hasCurrency s (stringOf key) then
        (Inl (Error ''a currency with the specified key already exists''), s)
      else if intOf sType < SYNC_TYPE_NONE \<or> intOf sType > SYNC_TYPE_PLAYER then
        (Inl (Error ''invalid syncType value''), s)
      else
        let cur = \<lparr>name = stringOf nm, syncType = intOf sType,
                   syncKey = ''currency_'' @ stringOf key\<rparr>;
            s1 = s\<lparr>currencies := assoc_set (stringOf key) cur (currencies s)\<rparr>;
            s2 = emit s1 (CurrencyDefined (stringOf key) (stringOf nm) (intOf sType) (syncKey cur))
        in (Inr cur, s2))"

section \<open>Players and their wallets\<close>

text \<open>The two host calls that replicate a variable to clients, as the program issues them.\<close>

datatype repl_call =
    SetVariable string jsval
  | SetOwnVariable string jsval

text \<open>
  A player: an identifier, the wallet object \<^verbatim>\<open>_wallet\<close>, and the replication calls
  made on the player so far.
\<close>

record player =
  pid :: nat
  wallet :: jswallet
  calls :: "repl_call list"

text \<open>The \<^verbatim>\<open>playerJoin\<close> handler: \<^verbatim>\<open>player._wallet = {}\<close>.\<close>

definition playerJoin :: "player \<Rightarrow> player" where
  "playerJoin p = p\<lparr>wallet := []\<rparr>"

definition getWallet :: "player \<Rightarrow> jswallet" where
  "getWallet p = wallet p"

text \<open>\<^verbatim>\<open>Player.prototype.getCurrency(currencyKey)\<close>: the error of the call of
  \<open>hasOwnProperty\<close>, or the value returned.\<close>

definition getCurrency :: "player \<Rightarrow> string \<Rightarrow> error + jsval" where
  "getCurrency p currencyKey =
     (case wallet_hasOwnProperty (wallet p) currencyKey of
        Inl e \<Rightarrow> Inl e
      | Inr own \<Rightarrow> Inr (if own then wallet_get (wallet p) currencyKey else JInt 0))"

text \<open>
  The \<^verbatim>\<open>switch (currency.syncType)\<close> that the three mutating functions each contain:
  \<^verbatim>\<open>setVariable\<close> for \<^verbatim>\<open>SYNC_TYPE_EVERYONE\<close>, \<^verbatim>\<open>setOwnVariable\<close> for
  \<^verbatim>\<open>SYNC_TYPE_PLAYER\<close>, nothing otherwise.
\<close>

definition syncSwitch :: "currency \<Rightarrow> jsval \<Rightarrow> player \<Rightarrow> player" where
  "syncSwitch cur v p =
     (if syncType cur = SYNC_TYPE_EVERYONE then p\<lparr>calls := calls p @ [SetVariable (syncKey cur) v]\<rparr>
      else if syncType cur = SYNC_TYPE_PLAYER then p\<lparr>calls := calls p @ [SetOwnVariable (syncKey cur) v]\<rparr>
      else p)"

text \<open>The first loop of \<^verbatim>\<open>setWallet\<close>: \<^verbatim>\<open>for (const key in newWallet)\<close>, over the keys
  still to visit, building \<open>replacement\<close>, which starts as \<^verbatim>\<open>{}\<close>.\<close>

fun setWallet_filter ::
  "script \<Rightarrow> (string \<times> jsval) list \<Rightarrow> string list \<Rightarrow> jswallet \<Rightarrow> jswallet" where
  "setWallet_filter s newWallet [] replacement = replacement"
| "setWallet_filter s newWallet (key # keys) replacement =
     (if \<not> hasCurrency s key \<or> \<not> isInteger (prop_get newWallet key)
      then setWallet_filter s newWallet keys replacement
      else setWallet_filter s newWallet keys
             (wallet_set replacement key (Finite (intOf (prop_get newWallet key)))))"

text \<open>The second loop: \<^verbatim>\<open>for (const key in replacement)\<close>, over the own properties of
  \<open>replacement\<close>. Reading \<open>syncType\<close> of an \<open>undefined\<close> currency throws; the player is
  returned as the loop left it.\<close>

fun setWallet_sync :: "script \<Rightarrow> jswallet \<Rightarrow> string list \<Rightarrow> player \<Rightarrow> error option \<times> player" where
  "setWallet_sync s replacement [] p = (None, p)"
| "setWallet_sync s replacement (key # keys) p =
     (case getCurrency_registry s key of
        None \<Rightarrow> (Some (TypeError ''Cannot read properties of undefined''), p)
      | Some cur \<Rightarrow>
          setWallet_sync s replacement keys (syncSwitch cur (wallet_get replacement key) p))"

definition setWallet :: "script \<Rightarrow> player \<Rightarrow> jsval \<Rightarrow> (error + bool) \<times> script \<times> player" where
  "setWallet s p newWallet =
     (if \<not> isPlainObject newWallet then (Inr False, s, p)
      else
        let oldWallet = wallet p;
            replacement =
              setWallet_filter s (entriesOf newWallet) (map fst (entriesOf newWallet)) [];
            p1 = p\<lparr>wallet := replacement\<rparr>
        in (case setWallet_sync s replacement (map fst replacement) p1 of
              (Some e, p2) \<Rightarrow> (Inl e, s, p2)
            | (None, p2) \<Rightarrow>
                (Inr True, emit s (WalletReplaced (pid p) oldWallet replacement), p2)))"

text \<open>\<^verbatim>\<open>setCurrency\<close> and \<^verbatim>\<open>changeCurrency\<close>: the result is the error thrown (by
  \<^verbatim>\<open>this.getCurrency\<close>, before anything is changed) or the boolean returned.\<close>

definition setCurrency ::
  "script \<Rightarrow> player \<Rightarrow> string \<Rightarrow> jsval \<Rightarrow> (error + bool) \<times> script \<times> player" where
  "setCurrency s p currencyKey newAmount =
     (case getCurrency_registry s currencyKey of
        None \<Rightarrow> (Inr False, s, p)
      | Some cur \<Rightarrow>
          if \<not> isInteger newAmount then (Inr False, s, p)
          else
            (case getCurrency p currencyKey of
               Inl e \<Rightarrow> (Inl e, s, p)
             | Inr oldAmount \<Rightarrow>
                 let p1 = p\<lparr>wallet := wallet_set (wallet p) currencyKey (Finite (intOf newAmount))\<rparr>;
                     p2 = syncSwitch cur newAmount p1
                 in (Inr True,
                     emit s (CurrencyUpdated (pid p) currencyKey oldAmount newAmount ''setCurrency''),
                     p2)))"

definition changeCurrency ::
  "script \<Rightarrow> player \<Rightarrow> string \<Rightarrow> jsval \<Rightarrow> (error + bool) \<times> script \<times> player" where
  "changeCurrency s p currencyKey amount =
     (case getCurrency_registry s currencyKey of
        None \<Rightarrow> (Inr False, s, p)
      | Some cur \<Rightarrow>
          if \<not> isInteger amount then (Inr False, s, p)
          else
            (case getCurrency p currencyKey of
               Inl e \<Rightarrow> (Inl e, s, p)
             | Inr oldAmount \<Rightarrow>
                 (case wallet_hasOwnProperty (wallet p) currencyKey of
                    Inl e \<Rightarrow> (Inl e, s, p)
                  | Inr own \<Rightarrow>
                      let p1 = (case map_of (wallet p) currencyKey of
                                  Some b \<Rightarrow>
                                    p\<lparr>wallet := wallet_set (wallet p) currencyKey
                                                   (js_add b (intOf amount))\<rparr>
                                | None \<Rightarrow>
                                    p\<lparr>wallet := wallet_set (wallet p) currencyKey
                                                   (Finite (intOf amount))\<rparr>);
                          p2 = syncSwitch cur (wallet_get (wallet p1) currencyKey) p1
                      in (Inr True,
                          emit s (CurrencyUpdated (pid p) currencyKey oldAmount
                                    (wallet_get (wallet p2) currencyKey) ''changeCurrency''),
                          p2))))"

section \<open>Sequences of calls\<close>

text \<open>
  A call of the interface, on the registry and one player. A sequence of calls runs
  from left to right; a call that throws leaves the state as it was at the throw, and
  the sequence goes on (the caller has caught the error).
\<close>

datatype api_call =
    AddCurrency jsval jsval jsval
  | SetWallet jsval
  | SetCurrency string jsval
  | ChangeCurrency string jsval

fun step :: "script \<times> player \<Rightarrow> api_call \<Rightarrow> script \<times> player" where
  "step (s, p) (AddCurrency key nm sType) = (snd (addCurrency s key nm sType), p)"
| "step (s, p) (SetWallet newWallet) = snd (setWallet s p newWallet)"
| "step (s, p) (SetCurrency currencyKey newAmount) = snd (setCurrency s p currencyKey newAmount)"
| "step (s, p) (ChangeCurrency currencyKey amount) = snd (changeCurrency s p currencyKey amount)"

definition runCalls :: "script \<times> player \<Rightarrow> api_call list \<Rightarrow> script \<times> player" where
  "runCalls st cs = foldl step st cs"

section \<open>Notions the properties are stated with\<close>

text \<open>The replication a sync type prescribes for a value: one \<^verbatim>\<open>setVariable\<close> for
  everyone, one \<^verbatim>\<open>setOwnVariable\<close> for the owner, nothing for none.\<close>

definition policyCalls :: "currency \<Rightarrow> jsval \<Rightarrow> repl_call list" where
  "policyCalls cur v =
     (if syncType cur = SYNC_TYPE_EVERYONE then [SetVariable (syncKey cur) v]
      else if syncType cur = SYNC_TYPE_PLAYER then [SetOwnVariable (syncKey cur) v]
      else [])"

text \<open>The same for a key of a wallet, by the key's registered currency and the value
  that reading the key returns.\<close>

definition keyCalls :: "script \<Rightarrow> jswallet \<Rightarrow> string \<Rightarrow> repl_call list" where
  "keyCalls s w k =
     (case getCurrency_registry s k of
        None \<Rightarrow> []
      | Some cur \<Rightarrow> policyCalls cur (wallet_get w k))"

text \<open>The \<open>replacement\<close> object that \<^verbatim>\<open>setWallet\<close> builds from its argument.\<close>

definition replacementOf :: "script \<Rightarrow> jsval \<Rightarrow> jswallet" where
  "replacementOf s v = setWallet_filter s (entriesOf v) (map fst (entriesOf v)) []"

text \<open>The balance that \<^verbatim>\<open>changeCurrency\<close> assigns for a key and an integer amount.\<close>

definition changedBalance :: "player \<Rightarrow> string \<Rightarrow> int \<Rightarrow> balance" where
  "changedBalance p k d =
     (case map_of (wallet p) k of Some b \<Rightarrow> js_add b d | None \<Rightarrow> Finite d)"


text \<open>
  The two kinds of failure of \<^verbatim>\<open>addCurrency\<close>, by the thrown message, and the
  conditions on its arguments.
\<close>

definition invalidArgument :: "error \<Rightarrow> bool" where
  "invalidArgument e =
     (e = Error ''key is not a string/is an empty string'' \<or>
      e = Error ''name is not a string/is an empty string'' \<or>
      e = Error ''syncType is not an integer'' \<or>
      e = Error ''invalid syncType value'')"

definition alreadyExists :: "error \<Rightarrow> bool" where
  "alreadyExists e = (e = Error ''a currency with the specified key already exists'')"

definition emptyOrNoString :: "jsval \<Rightarrow> bool" where
  "emptyOrNoString v = (case v of JStr str \<Rightarrow> str = [] | _ \<Rightarrow> True)"

definition recognisedSyncType :: "jsval \<Rightarrow> bool" where
  "recognisedSyncType v =
     (v = JInt SYNC_TYPE_NONE \<or> v = JInt SYNC_TYPE_EVERYONE \<or> v = JInt SYNC_TYPE_PLAYER)"

definition registeredKey :: "script \<Rightarrow> jsval \<Rightarrow> bool" where
  "registeredKey s v = (case v of JStr str \<Rightarrow> hasCurrency s str | _ \<Rightarrow> False)"

subsection \<open>Examples\<close>

text \<open>A registry and a player for the examples: only \<open>gold\<close> is registered, shared
  with everyone; the player has just joined.\<close>

definition goldCurrency :: currency where
  "goldCurrency = \<lparr>name = ''Gold'', syncType = 1, syncKey = ''currency_gold''\<rparr>"

definition goldScript :: script where
  "goldScript = \<lparr>currencies = [(''gold'', goldCurrency)], events = []\<rparr>"

definition emptyScript :: script where
  "emptyScript = \<lparr>currencies = [], events = []\<rparr>"

definition newPlayer :: player where
  "newPlayer = playerJoin \<lparr>pid = 7, wallet = [], calls = []\<rparr>"

text \<open>A registry with one currency of each sync type.\<close>

definition bankScript :: script where
  "bankScript =
     \<lparr>currencies =
        [(''gold'', \<lparr>name = ''Gold'', syncType = SYNC_TYPE_EVERYONE, syncKey = ''currency_gold''\<rparr>),
         (''cash'', \<lparr>name = ''Cash'', syncType = SYNC_TYPE_PLAYER, syncKey = ''currency_cash''\<rparr>),
         (''xp'', \<lparr>name = ''Experience'', syncType = SYNC_TYPE_NONE, syncKey = ''currency_xp''\<rparr>)],
      events = []\<rparr>"

text \<open>A sequence of calls for the examples: some succeed, some are refused.\<close>

definition sampleCalls :: "api_call list" where
  "sampleCalls =
     [AddCurrency (JStr ''gold'') (JStr ''Gold'') (JInt 1),
      SetWallet (JObj [(''gold'', JInt 5), (''unknown_currency'', JInt 9),
                       (''gold2'', JStr ''not_a_number'')] []),
      SetCurrency ''gold'' (JInt 100),
      SetCurrency ''silver'' (JInt 3),
      ChangeCurrency ''gold'' (JInt (- 30)),
      ChangeCurrency ''gold'' JFraction]"

text \<open>The two scenarios of the specification: set \<open>gold\<close> to 100, then change it by -30.\<close>

definition afterSet :: "script \<times> player" where
  "afterSet = snd (setCurrency goldScript newPlayer ''gold'' (JInt 100))"

text \<open>A player holding 7 \<open>cash\<close> and 9 \<open>xp\<close>.\<close>

definition richPlayer :: player where
  "richPlayer = \<lparr>pid = 3, wallet = [(''cash'', Finite 7), (''xp'', Finite 9)], calls = []\<rparr>"

text \<open>
  Calls that register three currencies, all shared with everyone: \<open>gold\<close>, and two
  whose keys are names that \<^verbatim>\<open>Object.prototype\<close> has, \<open>hasOwnProperty\<close> and \<open>__proto__\<close>.
  Every key is a non-empty string, and \<^verbatim>\<open>addCurrency\<close> accepts it.
\<close>

definition registerCalls :: "api_call list" where
  "registerCalls =
     [AddCurrency (JStr ''gold'') (JStr ''Gold'') (JInt 1),
      AddCurrency (JStr ''hasOwnProperty'') (JStr ''Tokens'') (JInt 1),
      AddCurrency (JStr ''__proto__'') (JStr ''Shards'') (JInt 1)]"

text \<open>The state after them on a new player, and after the player is then given one
  \<open>hasOwnProperty\<close> by \<^verbatim>\<open>setCurrency\<close>.\<close>

definition registered :: "script \<times> player" where
  "registered = runCalls (emptyScript, newPlayer) registerCalls"

definition shadowed :: "script \<times> player" where
  "shadowed = runCalls registered [SetCurrency ''hasOwnProperty'' (JInt 1)]"

text \<open>Calls that register \<open>gold\<close> and change it twice by \<open>2^1023\<close>, a double and an
  integer.\<close>

definition overflowCalls :: "api_call list" where
  "overflowCalls =
     [AddCurrency (JStr ''gold'') (JStr ''Gold'') (JInt 1),
      ChangeCurrency ''gold'' (JInt (2 ^ 1023)),
      ChangeCurrency ''gold'' (JInt (2 ^ 1023))]"

section \<open>Facts about the model\<close>

subsection \<open>Association lists\<close>

lemma map_of_assoc_set: "map_of (assoc_set k v kvs) = (map_of kvs)(k \<mapsto> v)"
  by (induction kvs) (auto simp: fun_eq_iff)

lemma keys_assoc_set:
  "map fst (assoc_set k v kvs) =
     (if k \<in> set (map fst kvs) then map fst kvs else map fst kvs @ [k])"
  by (induction kvs) auto

lemma distinct_assoc_set:
  "distinct (map fst kvs) \<Longrightarrow> distinct (map fst (assoc_set k v kvs))"
  by (simp add: keys_assoc_set)

lemma assoc_set_new: "k \<notin> set (map fst kvs) \<Longrightarrow> assoc_set k v kvs = kvs @ [(k, v)]"
  by (induction kvs) auto

lemma set_assoc_set: "set (assoc_set k v kvs) \<subseteq> insert (k, v) (set kvs)"
  by (induction kvs) auto

lemma has_key_keys: "has_key kvs k \<longleftrightarrow> k \<in> set (map fst kvs)"
  by (simp add: has_key_def map_of_eq_None_iff)

subsection \<open>The wallet object\<close>

lemma map_of_wallet_set_other:
  "k' \<noteq> k \<Longrightarrow> map_of (wallet_set w k b) k' = map_of w k'"
  by (simp add: wallet_set_def map_of_assoc_set)

lemma has_key_wallet_set_other:
  "k' \<noteq> k \<Longrightarrow> has_key (wallet_set w k b) k' = has_key w k'"
  by (simp add: has_key_def map_of_wallet_set_other)

lemma wallet_get_wallet_set_other:
  "k' \<noteq> k \<Longrightarrow> wallet_get (wallet_set w k b) k' = wallet_get w k'"
  by (simp add: wallet_get_def map_of_wallet_set_other)

lemma keys_assoc_set_cases:
  "x \<in> set (map fst (assoc_set k v kvs)) \<Longrightarrow> x = k \<or> x \<in> set (map fst kvs)"
  by (induction kvs) (auto split: if_splits)

lemma keys_wallet_set:
  assumes "x \<in> set (map fst (wallet_set w k b))"
  shows "x = k \<or> x \<in> set (map fst w)"
proof (cases "k = ''__proto__'' \<and> \<not> has_key w k")
  case True
  then have "wallet_set w k b = w" by (auto simp: wallet_set_def)
  then show ?thesis using assms by simp
next
  case False
  then have "wallet_set w k b = assoc_set k b w" by (auto simp: wallet_set_def)
  then have "x \<in> set (map fst (assoc_set k b w))" using assms by simp
  then show ?thesis by (rule keys_assoc_set_cases)
qed

lemma getCurrency_wallet_set_other:
  "k \<noteq> ''hasOwnProperty'' \<Longrightarrow> k' \<noteq> k \<Longrightarrow>
   getCurrency (p\<lparr>wallet := wallet_set (wallet p) k b, calls := c\<rparr>) k' = getCurrency p k'"
  by (simp add: getCurrency_def wallet_hasOwnProperty_def has_key_wallet_set_other
        wallet_get_wallet_set_other)

subsection \<open>The replication switch and emit\<close>

lemma syncSwitch_eq: "syncSwitch cur v p = p\<lparr>calls := calls p @ policyCalls cur v\<rparr>"
  by (simp add: syncSwitch_def policyCalls_def)

lemma emit_currencies: "currencies (emit s e) = currencies s"
  by (simp add: emit_def)


lemma hasCurrency_emit: "hasCurrency (emit s e) k = hasCurrency s k"
  by (simp add: hasCurrency_def emit_def)

lemma hasCurrency_lookup: "hasCurrency s k \<longleftrightarrow> getCurrency_registry s k \<noteq> None"
  by (simp add: hasCurrency_def has_key_def getCurrency_registry_def)

lemma getCurrency_registry_emit: "getCurrency_registry (emit s e) k = getCurrency_registry s k"
  by (simp add: getCurrency_registry_def emit_def)

subsection \<open>The loops of setWallet\<close>

lemma keys_setWallet_filter:
  "x \<in> set (map fst (setWallet_filter s nw ks rep)) \<Longrightarrow>
   x \<in> set (map fst rep) \<or> hasCurrency s x"
proof (induction ks arbitrary: rep)
  case Nil
  then show ?case by simp
next
  case (Cons k ks)
  show ?case
  proof (cases "\<not> hasCurrency s k \<or> \<not> isInteger (prop_get nw k)")
    case True
    then have "x \<in> set (map fst (setWallet_filter s nw ks rep))"
      using Cons.prems by simp
    then show ?thesis by (rule Cons.IH)
  next
    case False
    let ?rep = "wallet_set rep k (Finite (intOf (prop_get nw k)))"
    have "x \<in> set (map fst (setWallet_filter s nw ks ?rep))"
      using Cons.prems False by simp
    then have "x \<in> set (map fst ?rep) \<or> hasCurrency s x" by (rule Cons.IH)
    then show ?thesis
    proof
      assume "x \<in> set (map fst ?rep)"
      then have "x = k \<or> x \<in> set (map fst rep)" by (rule keys_wallet_set)
      then show ?thesis using False by blast
    next
      assume "hasCurrency s x"
      then show ?thesis by simp
    qed
  qed
qed

lemma replacementOf_registered:
  "k \<in> set (map fst (replacementOf s v)) \<Longrightarrow> hasCurrency s k"
  using keys_setWallet_filter [of k s "entriesOf v" "map fst (entriesOf v)" "[]"]
  by (simp add: replacementOf_def)

lemma setWallet_sync_registered:
  "\<forall>k \<in> set ks. hasCurrency s k \<Longrightarrow>
   setWallet_sync s rep ks p =
     (None, p\<lparr>calls := calls p @ concat (map (keyCalls s rep) ks)\<rparr>)"
proof (induction ks arbitrary: p)
  case Nil
  show ?case by simp
next
  case (Cons k ks)
  then obtain cur where cur: "getCurrency_registry s k = Some cur"
    by (auto simp: hasCurrency_lookup)
  let ?p = "syncSwitch cur (wallet_get rep k) p"
  have "setWallet_sync s rep ks ?p =
        (None, ?p\<lparr>calls := calls ?p @ concat (map (keyCalls s rep) ks)\<rparr>)"
    using Cons.prems by (intro Cons.IH) simp
  moreover have "keyCalls s rep k = policyCalls cur (wallet_get rep k)"
    using cur by (simp add: keyCalls_def)
  ultimately show ?case using cur by (simp add: syncSwitch_eq)
qed

lemma setWallet_object:
  assumes "isPlainObject v"
  shows "setWallet s p v =
     (Inr True,
      emit s (WalletReplaced (pid p) (wallet p) (replacementOf s v)),
      p\<lparr>wallet := replacementOf s v,
        calls := calls p @
          concat (map (keyCalls s (replacementOf s v)) (map fst (replacementOf s v)))\<rparr>)"
proof -
  let ?rep = "replacementOf s v"
  have reg: "\<forall>k \<in> set (map fst ?rep). hasCurrency s k"
    using replacementOf_registered by blast
  have "setWallet_sync s ?rep (map fst ?rep) (p\<lparr>wallet := ?rep\<rparr>) =
        (None, p\<lparr>wallet := ?rep\<rparr>\<lparr>calls := calls (p\<lparr>wallet := ?rep\<rparr>) @
           concat (map (keyCalls s ?rep) (map fst ?rep))\<rparr>)"
    by (rule setWallet_sync_registered [OF reg])
  then show ?thesis
    using assms by (simp add: setWallet_def Let_def replacementOf_def)
qed

lemma setWallet_not_object:
  "\<not> isPlainObject v \<Longrightarrow> setWallet s p v = (Inr False, s, p)"
  by (simp add: setWallet_def)

lemma setWallet_currencies: "currencies (fst (snd (setWallet s p v))) = currencies s"
  by (cases "isPlainObject v") (simp_all add: setWallet_object setWallet_not_object emit_currencies)

subsection \<open>setCurrency and changeCurrency\<close>

lemma setCurrency_outcome:
  "setCurrency s p k v = (r, s', p') \<Longrightarrow>
   (r \<noteq> Inr True \<and> s' = s \<and> p' = p) \<or>
   (r = Inr True \<and>
    (\<exists>cur old. getCurrency_registry s k = Some cur \<and> isInteger v \<and> getCurrency p k = Inr old \<and>
       s' = emit s (CurrencyUpdated (pid p) k old v ''setCurrency'') \<and>
       p' = p\<lparr>wallet := wallet_set (wallet p) k (Finite (intOf v)),
              calls := calls p @ policyCalls cur v\<rparr>))"
  by (auto simp: setCurrency_def Let_def syncSwitch_eq split: option.splits if_splits sum.splits)

lemma changeCurrency_outcome:
  "changeCurrency s p k v = (r, s', p') \<Longrightarrow>
   (r \<noteq> Inr True \<and> s' = s \<and> p' = p) \<or>
   (r = Inr True \<and>
    (\<exists>cur old new. getCurrency_registry s k = Some cur \<and> isInteger v \<and>
       getCurrency p k = Inr old \<and>
       new = wallet_get (wallet_set (wallet p) k (changedBalance p k (intOf v))) k \<and>
       s' = emit s (CurrencyUpdated (pid p) k old new ''changeCurrency'') \<and>
       p' = p\<lparr>wallet := wallet_set (wallet p) k (changedBalance p k (intOf v)),
              calls := calls p @ policyCalls cur new\<rparr>))"
  by (auto simp: changeCurrency_def Let_def syncSwitch_eq changedBalance_def
           split: option.splits if_splits sum.splits)

lemma setCurrency_currencies: "currencies (fst (snd (setCurrency s p k v))) = currencies s"
proof -
  obtain r s' p' where r: "setCurrency s p k v = (r, s', p')"
    by (cases "setCurrency s p k v")
  from setCurrency_outcome [OF r] show ?thesis using r by (auto simp: emit_currencies)
qed

lemma changeCurrency_currencies: "currencies (fst (snd (changeCurrency s p k v))) = currencies s"
proof -
  obtain r s' p' where r: "changeCurrency s p k v = (r, s', p')"
    by (cases "changeCurrency s p k v")
  from changeCurrency_outcome [OF r] show ?thesis using r by (auto simp: emit_currencies)
qed

subsection \<open>addCurrency\<close>

lemma addCurrency_success:
  "k \<noteq> [] \<Longrightarrow> n \<noteq> [] \<Longrightarrow> \<not> hasCurrency s k \<Longrightarrow> SYNC_TYPE_NONE \<le> t \<Longrightarrow> t \<le> SYNC_TYPE_PLAYER \<Longrightarrow>
   addCurrency s (JStr k) (JStr n) (JInt t) =
     (Inr \<lparr>name = n, syncType = t, syncKey = ''currency_'' @ k\<rparr>,
      \<lparr>currencies = currencies s @ [(k, \<lparr>name = n, syncType = t, syncKey = ''currency_'' @ k\<rparr>)],
       events = events s @ [CurrencyDefined k n t (''currency_'' @ k)]\<rparr>)"
  by (simp add: addCurrency_def Let_def emit_def assoc_set_new hasCurrency_def has_key_keys)

lemma addCurrency_result:
  "addCurrency s key nm sType = (r, s') \<Longrightarrow>
   (\<exists>e. r = Inl e \<and> s' = s) \<or>
   (\<exists>k n t. key = JStr k \<and> nm = JStr n \<and> sType = JInt t \<and> k \<noteq> [] \<and> n \<noteq> [] \<and>
      \<not> hasCurrency s k \<and> SYNC_TYPE_NONE \<le> t \<and> t \<le> SYNC_TYPE_PLAYER)"
proof -
  assume a: "addCurrency s key nm sType = (r, s')"
  show ?thesis
  proof (cases "\<exists>e. r = Inl e")
    case True
    then have "s' = s" using a by (auto simp: addCurrency_def Let_def split: if_splits)
    then show ?thesis using True by blast
  next
    case False
    then have c: "isString key" "stringOf key \<noteq> []" "isString nm" "stringOf nm \<noteq> []"
      "isInteger sType" "\<not> hasCurrency s (stringOf key)"
      "SYNC_TYPE_NONE \<le> intOf sType" "intOf sType \<le> SYNC_TYPE_PLAYER"
      using a by (auto simp: addCurrency_def Let_def split: if_splits)
    from c(1) obtain k where k: "key = JStr k" by (cases key) auto
    from c(3) obtain n where n: "nm = JStr n" by (cases nm) auto
    from c(5) obtain t where t: "sType = JInt t" by (cases sType) auto
    show ?thesis using c k n t by simp
  qed
qed

lemma addCurrency_failure_state:
  assumes "fst (addCurrency s key nm sType) = Inl e"
  shows "snd (addCurrency s key nm sType) = s"
proof -
  obtain r s' where rs: "addCurrency s key nm sType = (r, s')"
    by (cases "addCurrency s key nm sType")
  from addCurrency_result [OF rs] show ?thesis
  proof
    assume "\<exists>e. r = Inl e \<and> s' = s"
    then show ?thesis using rs by auto
  next
    assume "\<exists>k n t. key = JStr k \<and> nm = JStr n \<and> sType = JInt t \<and> k \<noteq> [] \<and> n \<noteq> [] \<and>
      \<not> hasCurrency s k \<and> SYNC_TYPE_NONE \<le> t \<and> t \<le> SYNC_TYPE_PLAYER"
    then obtain k n t where h: "key = JStr k" "nm = JStr n" "sType = JInt t" "k \<noteq> []" "n \<noteq> []"
      "\<not> hasCurrency s k" "SYNC_TYPE_NONE \<le> t" "t \<le> SYNC_TYPE_PLAYER" by blast
    have "fst (addCurrency s key nm sType) =
            Inr \<lparr>name = n, syncType = t, syncKey = ''currency_'' @ k\<rparr>"
      using addCurrency_success [OF h(4) h(5) h(6) h(7) h(8)] h(1,2,3) by simp
    then show ?thesis using assms by simp
  qed
qed

lemma addCurrency_keeps:
  "getCurrency_registry s k = Some cur \<Longrightarrow>
   getCurrency_registry (snd (addCurrency s key nm sType)) k = Some cur"
proof -
  assume a: "getCurrency_registry s k = Some cur"
  obtain r s' where rs: "addCurrency s key nm sType = (r, s')" by (cases "addCurrency s key nm sType")
  from addCurrency_result [OF rs] show ?thesis
  proof
    assume "\<exists>e. r = Inl e \<and> s' = s"
    then show ?thesis using a rs by auto
  next
    assume "\<exists>k n t. key = JStr k \<and> nm = JStr n \<and> sType = JInt t \<and> k \<noteq> [] \<and> n \<noteq> [] \<and>
      \<not> hasCurrency s k \<and> SYNC_TYPE_NONE \<le> t \<and> t \<le> SYNC_TYPE_PLAYER"
    then obtain k' n t where h: "key = JStr k'" "nm = JStr n" "sType = JInt t" "k' \<noteq> []" "n \<noteq> []"
      "\<not> hasCurrency s k'" "SYNC_TYPE_NONE \<le> t" "t \<le> SYNC_TYPE_PLAYER" by blast
    have "k' \<noteq> k" using h(6) a by (auto simp: hasCurrency_lookup)
    then show ?thesis
      using a addCurrency_success [OF h(4) h(5) h(6) h(7) h(8)] h(1,2,3)
      by (simp add: getCurrency_registry_def)
  qed
qed

lemma addCurrency_hasCurrency:
  "hasCurrency s k \<Longrightarrow> hasCurrency (snd (addCurrency s key nm sType)) k"
  using addCurrency_keeps [of s k _ key nm sType] by (auto simp: hasCurrency_lookup)

lemma emptyOrNoString_conv:
  "emptyOrNoString v \<longleftrightarrow> \<not> isString v \<or> length (stringOf v) < 1"
  by (cases v) (auto simp: emptyOrNoString_def)

lemma registeredKey_conv:
  "registeredKey s v \<longleftrightarrow> isString v \<and> hasCurrency s (stringOf v)"
  by (cases v) (auto simp: registeredKey_def)

lemma recognisedSyncType_conv:
  "recognisedSyncType v \<longleftrightarrow>
     isInteger v \<and> \<not> (intOf v < SYNC_TYPE_NONE \<or> intOf v > SYNC_TYPE_PLAYER)"
  by (cases v)
     (auto simp: recognisedSyncType_def SYNC_TYPE_NONE_def SYNC_TYPE_EVERYONE_def
        SYNC_TYPE_PLAYER_def)

lemma recognised_int:
  "recognisedSyncType (JInt t) \<longleftrightarrow> SYNC_TYPE_NONE \<le> t \<and> t \<le> SYNC_TYPE_PLAYER"
  by (auto simp: recognisedSyncType_conv)

lemma addCurrency_fst:
  "fst (addCurrency s key nm sType) =
     (if emptyOrNoString key then Inl (Error ''key is not a string/is an empty string'')
      else if emptyOrNoString nm then Inl (Error ''name is not a string/is an empty string'')
      else if \<not> isInteger sType then Inl (Error ''syncType is not an integer'')
      else if registeredKey s key then Inl (Error ''a currency with the specified key already exists'')
      else if \<not> recognisedSyncType sType then Inl (Error ''invalid syncType value'')
      else Inr \<lparr>name = stringOf nm, syncType = intOf sType,
                 syncKey = ''currency_'' @ stringOf key\<rparr>)"
  by (simp add: addCurrency_def Let_def emptyOrNoString_conv registeredKey_conv
        recognisedSyncType_conv)

subsection \<open>Sequences of calls\<close>

lemma step_keeps_currency:
  "getCurrency_registry s k = Some cur \<Longrightarrow> getCurrency_registry (fst (step (s, p) c)) k = Some cur"
proof (cases c)
  case (AddCurrency key nm sType)
  assume "getCurrency_registry s k = Some cur"
  then show ?thesis using AddCurrency by (simp add: addCurrency_keeps)
next
  case (SetWallet newWallet)
  assume "getCurrency_registry s k = Some cur"
  then show ?thesis using SetWallet setWallet_currencies [of s p newWallet]
    by (simp add: getCurrency_registry_def)
next
  case (SetCurrency k' v)
  assume "getCurrency_registry s k = Some cur"
  then show ?thesis using SetCurrency setCurrency_currencies [of s p k' v]
    by (simp add: getCurrency_registry_def)
next
  case (ChangeCurrency k' v)
  assume "getCurrency_registry s k = Some cur"
  then show ?thesis using ChangeCurrency changeCurrency_currencies [of s p k' v]
    by (simp add: getCurrency_registry_def)
qed

lemma runCalls_keeps_currency:
  "getCurrency_registry (fst st) k = Some cur \<Longrightarrow>
   getCurrency_registry (fst (runCalls st cs)) k = Some cur"
proof (induction cs arbitrary: st)
  case Nil
  then show ?case by (simp add: runCalls_def)
next
  case (Cons c cs)
  obtain s p where st: "st = (s, p)" by (cases st)
  have "getCurrency_registry (fst (step (s, p) c)) k = Some cur"
    using Cons.prems st by (simp add: step_keeps_currency)
  then have "getCurrency_registry (fst (runCalls (step (s, p) c) cs)) k = Some cur"
    by (rule Cons.IH)
  then show ?case using st by (simp add: runCalls_def)
qed

section \<open>The claims\<close>

text \<open>
  C1 fails on the code at two reachable states. (1) Once the wallet owns a property
  \<open>hasOwnProperty\<close> (a registered key, set to 1), \<^verbatim>\<open>setCurrency\<close> and \<^verbatim>\<open>changeCurrency\<close> of
  \<open>gold\<close>, registered and shared with everyone, throw a \<open>TypeError\<close> from
  \<^verbatim>\<open>this.getCurrency\<close> and make no replication call. (2) For the registered key
  \<open>__proto__\<close>, shared with everyone, both calls return true and store nothing, so the
  balance stays 0: \<^verbatim>\<open>setCurrency\<close> replicates the 5 it was given, \<^verbatim>\<open>changeCurrency\<close>
  replicates \<^verbatim>\<open>Object.prototype\<close>.
\<close>

theorem replication_misses_prototype_keys:
  "getCurrencySyncType (fst shadowed) ''gold'' = SYNC_TYPE_EVERYONE \<and>
   wallet (snd shadowed) = [(''hasOwnProperty'', Finite 1)] \<and>
   setCurrency (fst shadowed) (snd shadowed) ''gold'' (JInt 5) =
     (Inl (TypeError ''this._wallet.hasOwnProperty is not a function''), shadowed) \<and>
   changeCurrency (fst shadowed) (snd shadowed) ''gold'' (JInt 5) =
     (Inl (TypeError ''this._wallet.hasOwnProperty is not a function''), shadowed) \<and>
   getCurrencySyncType (fst registered) ''__proto__'' = SYNC_TYPE_EVERYONE \<and>
   wallet (snd registered) = [] \<and> calls (snd registered) = [] \<and>
   fst (setCurrency (fst registered) (snd registered) ''__proto__'' (JInt 5)) = Inr True \<and>
   calls (snd (snd (setCurrency (fst registered) (snd registered) ''__proto__'' (JInt 5)))) =
     [SetVariable ''currency___proto__'' (JInt 5)] \<and>
   getCurrency (snd (snd (setCurrency (fst registered) (snd registered) ''__proto__'' (JInt 5))))
     ''__proto__'' = Inr (JInt 0) \<and>
   fst (changeCurrency (fst registered) (snd registered) ''__proto__'' (JInt 5)) = Inr True \<and>
   calls (snd (snd (changeCurrency (fst registered) (snd registered) ''__proto__'' (JInt 5)))) =
     [SetVariable ''currency___proto__'' JObjectPrototype] \<and>
   getCurrency (snd (snd (changeCurrency (fst registered) (snd registered) ''__proto__'' (JInt 5))))
     ''__proto__'' = Inr (JInt 0)"
  by code_simp

text \<open>
  C2 fails on the code: from the empty wallet of a new player, with \<open>gold\<close> registered,
  \<^verbatim>\<open>changeCurrency("gold", 2 ** 1023)\<close> twice (the amount is a double and an integer)
  leaves \<open>Infinity\<close> as the balance of \<open>gold\<close>, which is no integer. The sum is not
  checked after \<^verbatim>\<open>+=\<close>; \<^verbatim>\<open>setCurrency\<close> refuses the same value.
\<close>

theorem changeCurrency_overflows_to_infinity:
  "isDouble (2 ^ 1023) \<and> isInteger (JInt (2 ^ 1023)) \<and>
   wallet (snd (runCalls (emptyScript, newPlayer) overflowCalls)) = [(''gold'', Infinite True)] \<and>
   getCurrency (snd (runCalls (emptyScript, newPlayer) overflowCalls)) ''gold'' =
     Inr (JInfinity True) \<and>
   \<not> isInteger (JInfinity True) \<and>
   fst (setCurrency goldScript newPlayer ''gold'' (JInfinity True)) = Inr False"
  by code_simp

text \<open>
  C3 (amended). \<^verbatim>\<open>addCurrency\<close> tests its arguments in a fixed order, and the first
  test that fails decides the error. It fails with an invalid-argument error exactly
  when the key is empty or no string, or the name is empty or no string, or the sync
  type is no integer, or the key is not registered and the sync type is none of the
  three values. It fails because the key exists exactly when key and name are
  non-empty strings, the sync type is an integer and the key is registered. A failing
  call leaves the registry as it was. Otherwise it returns the record with the name,
  the sync type and the sync key \<open>currency_\<close> followed by the key, stores it last in the
  registry, and emits \<open>currencyDefined\<close> with key, name, sync type and sync key; no later
  call changes the stored record.
\<close>

theorem addCurrency_outcomes:
  "((\<exists>e. fst (addCurrency s key nm sType) = Inl e \<and> invalidArgument e) \<longleftrightarrow>
      (emptyOrNoString key \<or> emptyOrNoString nm \<or> \<not> isInteger sType \<or>
       (\<not> registeredKey s key \<and> \<not> recognisedSyncType sType))) \<and>
   ((\<exists>e. fst (addCurrency s key nm sType) = Inl e \<and> alreadyExists e) \<longleftrightarrow>
      (\<not> emptyOrNoString key \<and> \<not> emptyOrNoString nm \<and> isInteger sType \<and>
       registeredKey s key)) \<and>
   ((\<exists>e. fst (addCurrency s key nm sType) = Inl e) \<longrightarrow> snd (addCurrency s key nm sType) = s) \<and>
   (k \<noteq> [] \<and> n \<noteq> [] \<and> recognisedSyncType (JInt t) \<and> \<not> hasCurrency s k \<longrightarrow>
      addCurrency s (JStr k) (JStr n) (JInt t) =
        (Inr \<lparr>name = n, syncType = t, syncKey = ''currency_'' @ k\<rparr>,
         \<lparr>currencies = currencies s @ [(k, \<lparr>name = n, syncType = t, syncKey = ''currency_'' @ k\<rparr>)],
          events = events s @ [CurrencyDefined k n t (''currency_'' @ k)]\<rparr>) \<and>
      getCurrency_registry
        (fst (runCalls (snd (addCurrency s (JStr k) (JStr n) (JInt t)), p) cs)) k =
        Some \<lparr>name = n, syncType = t, syncKey = ''currency_'' @ k\<rparr>)"
proof -
  have inv: "(\<exists>e. fst (addCurrency s key nm sType) = Inl e \<and> invalidArgument e) \<longleftrightarrow>
      (emptyOrNoString key \<or> emptyOrNoString nm \<or> \<not> isInteger sType \<or>
       (\<not> registeredKey s key \<and> \<not> recognisedSyncType sType))"
    by (simp add: addCurrency_fst invalidArgument_def)
  have ex: "(\<exists>e. fst (addCurrency s key nm sType) = Inl e \<and> alreadyExists e) \<longleftrightarrow>
      (\<not> emptyOrNoString key \<and> \<not> emptyOrNoString nm \<and> isInteger sType \<and>
       registeredKey s key)"
    by (simp add: addCurrency_fst alreadyExists_def)
  have unchanged: "(\<exists>e. fst (addCurrency s key nm sType) = Inl e) \<longrightarrow>
      snd (addCurrency s key nm sType) = s"
    using addCurrency_failure_state by blast
  have ok: "k \<noteq> [] \<and> n \<noteq> [] \<and> recognisedSyncType (JInt t) \<and> \<not> hasCurrency s k \<longrightarrow>
      addCurrency s (JStr k) (JStr n) (JInt t) =
        (Inr \<lparr>name = n, syncType = t, syncKey = ''currency_'' @ k\<rparr>,
         \<lparr>currencies = currencies s @ [(k, \<lparr>name = n, syncType = t, syncKey = ''currency_'' @ k\<rparr>)],
          events = events s @ [CurrencyDefined k n t (''currency_'' @ k)]\<rparr>) \<and>
      getCurrency_registry
        (fst (runCalls (snd (addCurrency s (JStr k) (JStr n) (JInt t)), p) cs)) k =
        Some \<lparr>name = n, syncType = t, syncKey = ''currency_'' @ k\<rparr>"
  proof (intro impI, elim conjE)
    assume h: "k \<noteq> []" "n \<noteq> []" "recognisedSyncType (JInt t)" "\<not> hasCurrency s k"
    let ?cur = "\<lparr>name = n, syncType = t, syncKey = ''currency_'' @ k\<rparr>"
    let ?s' = "\<lparr>currencies = currencies s @ [(k, ?cur)],
                events = events s @ [CurrencyDefined k n t (''currency_'' @ k)]\<rparr>"
    have r: "addCurrency s (JStr k) (JStr n) (JInt t) = (Inr ?cur, ?s')"
      using h by (simp add: addCurrency_success recognised_int)
    have "k \<notin> set (map fst (currencies s))"
      using h(4) by (simp add: hasCurrency_def has_key_keys)
    then have "map_of (currencies s) k = None"
      by (simp add: map_of_eq_None_iff)
    then have "getCurrency_registry ?s' k = Some ?cur"
      by (simp add: getCurrency_registry_def map_add_def)
    then have "getCurrency_registry (fst (runCalls (?s', p) cs)) k = Some ?cur"
      using runCalls_keeps_currency [of "(?s', p)" k ?cur cs] by simp
    then show "addCurrency s (JStr k) (JStr n) (JInt t) = (Inr ?cur, ?s') \<and>
      getCurrency_registry
        (fst (runCalls (snd (addCurrency s (JStr k) (JStr n) (JInt t)), p) cs)) k = Some ?cur"
      using r by simp
  qed
  from inv ex unchanged ok show ?thesis by blast
qed

text \<open>Defining \<open>gold\<close> in the empty registry, and then running the sample calls.\<close>

theorem addCurrency_outcomes_witness:
  "addCurrency emptyScript (JStr ''gold'') (JStr ''Gold'') (JInt 1) =
     (Inr \<lparr>name = ''Gold'', syncType = 1, syncKey = ''currency_gold''\<rparr>,
      \<lparr>currencies = [(''gold'', \<lparr>name = ''Gold'', syncType = 1, syncKey = ''currency_gold''\<rparr>)],
       events = [CurrencyDefined ''gold'' ''Gold'' 1 ''currency_gold'']\<rparr>) \<and>
   getCurrency_registry
     (fst (runCalls (snd (addCurrency emptyScript (JStr ''gold'') (JStr ''Gold'') (JInt 1)), newPlayer)
        sampleCalls)) ''gold'' =
     Some \<lparr>name = ''Gold'', syncType = 1, syncKey = ''currency_gold''\<rparr> \<and>
   fst (addCurrency goldScript (JStr ''gold'') (JStr ''Gold'') (JInt 1)) =
     Inl (Error ''a currency with the specified key already exists'') \<and>
   fst (addCurrency goldScript (JStr ''silver'') (JStr ''Silver'') (JInt 7)) =
     Inl (Error ''invalid syncType value'')"
proof -
  have h: "''gold'' \<noteq> [] \<and> ''Gold'' \<noteq> [] \<and> recognisedSyncType (JInt 1) \<and>
           \<not> hasCurrency emptyScript ''gold''"
    by code_simp
  have c: "currencies emptyScript = []" "events emptyScript = []"
    by code_simp+
  have e1: "fst (addCurrency goldScript (JStr ''gold'') (JStr ''Gold'') (JInt 1)) =
     Inl (Error ''a currency with the specified key already exists'')"
    by code_simp
  have e2: "fst (addCurrency goldScript (JStr ''silver'') (JStr ''Silver'') (JInt 7)) =
     Inl (Error ''invalid syncType value'')"
    by code_simp
  note t = addCurrency_outcomes [of emptyScript "JStr ''gold''" "JStr ''Gold''" "JInt 1"
      "''gold''" "''Gold''" 1 newPlayer sampleCalls]
  note ok = t [THEN conjunct2, THEN conjunct2, THEN conjunct2, THEN mp, OF h]
  have "addCurrency emptyScript (JStr ''gold'') (JStr ''Gold'') (JInt 1) =
     (Inr \<lparr>name = ''Gold'', syncType = 1, syncKey = ''currency_gold''\<rparr>,
      \<lparr>currencies = [(''gold'', \<lparr>name = ''Gold'', syncType = 1, syncKey = ''currency_gold''\<rparr>)],
       events = [CurrencyDefined ''gold'' ''Gold'' 1 ''currency_gold'']\<rparr>)"
    using ok [THEN conjunct1] unfolding c by simp
  moreover have "getCurrency_registry
     (fst (runCalls (snd (addCurrency emptyScript (JStr ''gold'') (JStr ''Gold'') (JInt 1)), newPlayer)
        sampleCalls)) ''gold'' =
     Some \<lparr>name = ''Gold'', syncType = 1, syncKey = ''currency_gold''\<rparr>"
    using ok [THEN conjunct2] by simp
  ultimately show ?thesis using e1 e2 by (intro conjI)
qed

text \<open>
  C3 as stated fails where two of its conditions meet. With \<open>gold\<close> registered,
  \<^verbatim>\<open>addCurrency("gold", "Gold", 7)\<close> has a sync type that is none of the three values,
  and the error is that the key exists, not an invalid argument;
  \<^verbatim>\<open>addCurrency("gold", "", 1)\<close> has a registered key, and the error is the invalid name.
\<close>

theorem addCurrency_outcomes_counterexample:
  "\<not> ((\<exists>e. fst (addCurrency goldScript (JStr ''gold'') (JStr ''Gold'') (JInt 7)) = Inl e \<and>
           invalidArgument e) \<longleftrightarrow>
       (emptyOrNoString (JStr ''gold'') \<or> emptyOrNoString (JStr ''Gold'') \<or>
        \<not> recognisedSyncType (JInt 7))) \<and>
   \<not> ((\<exists>e. fst (addCurrency goldScript (JStr ''gold'') (JStr '''') (JInt 1)) = Inl e \<and>
           alreadyExists e) \<longleftrightarrow>
       registeredKey goldScript (JStr ''gold''))"
proof -
  have e1: "fst (addCurrency goldScript (JStr ''gold'') (JStr ''Gold'') (JInt 7)) =
     Inl (Error ''a currency with the specified key already exists'')"
    by code_simp
  have e2: "fst (addCurrency goldScript (JStr ''gold'') (JStr '''') (JInt 1)) =
     Inl (Error ''name is not a string/is an empty string'')"
    by code_simp
  have n1: "\<not> invalidArgument (Error ''a currency with the specified key already exists'')"
    by code_simp
  have n2: "\<not> alreadyExists (Error ''name is not a string/is an empty string'')"
    by code_simp
  have c1: "\<not> recognisedSyncType (JInt 7)" by code_simp
  have c2: "registeredKey goldScript (JStr ''gold'')" by code_simp
  show ?thesis using n1 n2 c1 c2 unfolding e1 e2 by simp
qed

text \<open>
  C4 fails on the code: with \<open>__proto__\<close> and \<open>gold\<close> registered, the input
  \<^verbatim>\<open>JSON.parse('{"__proto__": 5, "gold": 2}')\<close> has the own entry \<open>__proto__\<close> with a
  registered key and an integer value, \<^verbatim>\<open>setWallet\<close> returns true, and the new wallet is
  exactly \<^verbatim>\<open>{gold: 2}\<close>: the assignment \<^verbatim>\<open>replacement["__proto__"] = 5\<close> stores nothing.
  And with only \<open>gold\<close> registered, an input with no entry of its own that inherits
  \<open>gold: 5\<close> from its prototype yields \<^verbatim>\<open>{gold: 5}\<close>.
\<close>

theorem setWallet_loses_proto_entry:
  "hasCurrency (fst registered) ''__proto__'' \<and> isInteger (JInt 5) \<and>
   fst (setWallet (fst registered) (snd registered)
          (JObj [(''__proto__'', JInt 5), (''gold'', JInt 2)] [])) = Inr True \<and>
   wallet (snd (snd (setWallet (fst registered) (snd registered)
          (JObj [(''__proto__'', JInt 5), (''gold'', JInt 2)] [])))) = [(''gold'', Finite 2)] \<and>
   fst (setWallet goldScript newPlayer (JObj [] [(''gold'', JInt 5)])) = Inr True \<and>
   wallet (snd (snd (setWallet goldScript newPlayer (JObj [] [(''gold'', JInt 5)])))) =
     [(''gold'', Finite 5)]"
  by code_simp




text \<open>
  C6 fails on the code. (1) For the registered key \<open>hasOwnProperty\<close>, absent from the
  wallet, \<^verbatim>\<open>changeCurrency(key, 1)\<close> stores 1, and \<^verbatim>\<open>changeCurrency(key, 2)\<close> then throws a
  \<open>TypeError\<close> and leaves 1, while \<^verbatim>\<open>setCurrency(key, 3)\<close> leaves 3. (2) For \<open>gold\<close> and
  \<open>d1 = d2 = 2^1023\<close> the two changes leave \<open>Infinity\<close>; \<open>d1 + d2\<close> is \<open>Infinity\<close> too, and
  \<^verbatim>\<open>setCurrency("gold", Infinity)\<close> returns false and leaves \<open>gold\<close> absent.
\<close>

theorem changeCurrency_twice_differs:
  "hasCurrency (fst registered) ''hasOwnProperty'' \<and>
   \<not> has_key (wallet (snd registered)) ''hasOwnProperty'' \<and>
   wallet (snd (runCalls registered [ChangeCurrency ''hasOwnProperty'' (JInt 1)])) =
     [(''hasOwnProperty'', Finite 1)] \<and>
   fst (changeCurrency (fst (runCalls registered [ChangeCurrency ''hasOwnProperty'' (JInt 1)]))
          (snd (runCalls registered [ChangeCurrency ''hasOwnProperty'' (JInt 1)]))
          ''hasOwnProperty'' (JInt 2)) =
     Inl (TypeError ''this._wallet.hasOwnProperty is not a function'') \<and>
   wallet (snd (runCalls registered
          [ChangeCurrency ''hasOwnProperty'' (JInt 1), ChangeCurrency ''hasOwnProperty'' (JInt 2)])) =
     [(''hasOwnProperty'', Finite 1)] \<and>
   wallet (snd (runCalls registered [SetCurrency ''hasOwnProperty'' (JInt (1 + 2))])) =
     [(''hasOwnProperty'', Finite 3)] \<and>
   wallet (snd (runCalls (emptyScript, newPlayer) overflowCalls)) = [(''gold'', Infinite True)] \<and>
   js_add (Finite (2 ^ 1023)) (2 ^ 1023) = Infinite True \<and>
   setCurrency goldScript newPlayer ''gold'' (numberOf (Infinite True)) =
     (Inr False, goldScript, newPlayer) \<and>
   wallet newPlayer = []"
  by code_simp

text \<open>
  C7. \<^verbatim>\<open>addCurrency\<close> with a key that is registered fails, whatever the other arguments,
  and returns the registry as it was: its records and the events emitted. So after a
  successful \<^verbatim>\<open>addCurrency\<close> of a key, a second one with that key fails and changes
  nothing, the key is listed once, and its record is the one the first call returned.
\<close>

theorem addCurrency_registered_key_rejected:
  "(hasCurrency s k \<longrightarrow> (\<exists>e. addCurrency s (JStr k) nm sType = (Inl e, s))) \<and>
   (addCurrency s (JStr k) nm sType = (Inr cur, s1) \<longrightarrow>
      (\<exists>e. addCurrency s1 (JStr k) nm' sType' = (Inl e, s1)) \<and>
      filter (\<lambda>key. key = k) (getAllCurrencies s1) = [k] \<and>
      getCurrency_registry s1 k = Some cur)"
proof -
  have rej: "hasCurrency s0 k \<longrightarrow> (\<exists>e. addCurrency s0 (JStr k) a b = (Inl e, s0))" for s0 a b
  proof
    assume h: "hasCurrency s0 k"
    then have "registeredKey s0 (JStr k)" by (simp add: registeredKey_def)
    then have "\<exists>e. fst (addCurrency s0 (JStr k) a b) = Inl e"
      by (simp add: addCurrency_fst)
    then obtain e where e: "fst (addCurrency s0 (JStr k) a b) = Inl e" by blast
    then have "snd (addCurrency s0 (JStr k) a b) = s0" by (rule addCurrency_failure_state)
    then have "addCurrency s0 (JStr k) a b = (Inl e, s0)" using e by (simp add: prod_eq_iff)
    then show "\<exists>e. addCurrency s0 (JStr k) a b = (Inl e, s0)" by blast
  qed
  have twice: "addCurrency s (JStr k) nm sType = (Inr cur, s1) \<longrightarrow>
      (\<exists>e. addCurrency s1 (JStr k) nm' sType' = (Inl e, s1)) \<and>
      filter (\<lambda>key. key = k) (getAllCurrencies s1) = [k] \<and>
      getCurrency_registry s1 k = Some cur"
  proof
    assume r: "addCurrency s (JStr k) nm sType = (Inr cur, s1)"
    from addCurrency_result [OF r] obtain n t where
      h: "nm = JStr n" "sType = JInt t" "k \<noteq> []" "n \<noteq> []" "\<not> hasCurrency s k"
         "SYNC_TYPE_NONE \<le> t" "t \<le> SYNC_TYPE_PLAYER"
      by auto
    have fresh: "k \<notin> set (map fst (currencies s))"
      using h(5) by (simp add: hasCurrency_def has_key_keys)
    have s1: "currencies s1 = currencies s @ [(k, cur)]"
      using r h(1,2) addCurrency_success [OF h(3) h(4) h(5) h(6) h(7)] by auto
    have keys: "filter (\<lambda>key. key = k) (getAllCurrencies s1) = [k]"
      using fresh by (auto simp: getAllCurrencies_def s1 filter_empty_conv)
    have "map_of (currencies s) k = None"
      using fresh by (simp add: map_of_eq_None_iff)
    then have look: "getCurrency_registry s1 k = Some cur"
      by (simp add: getCurrency_registry_def s1 map_add_def)
    then have "hasCurrency s1 k" by (simp add: hasCurrency_lookup)
    then have "\<exists>e. addCurrency s1 (JStr k) nm' sType' = (Inl e, s1)"
      using rej [of s1 nm' sType'] by simp
    then show "(\<exists>e. addCurrency s1 (JStr k) nm' sType' = (Inl e, s1)) \<and>
      filter (\<lambda>key. key = k) (getAllCurrencies s1) = [k] \<and>
      getCurrency_registry s1 k = Some cur"
      using keys look by simp
  qed
  from rej [of s nm sType] twice show ?thesis by (intro conjI)
qed

text \<open>The scenario of the specification: \<open>gold\<close> defined twice, the second time with
  another name and sync type.\<close>

theorem addCurrency_registered_key_rejected_witness:
  "addCurrency emptyScript (JStr ''gold'') (JStr ''Gold'') (JInt 1) =
     (Inr goldCurrency,
      goldScript\<lparr>events := [CurrencyDefined ''gold'' ''Gold'' 1 ''currency_gold'']\<rparr>) \<and>
   addCurrency (goldScript\<lparr>events := [CurrencyDefined ''gold'' ''Gold'' 1 ''currency_gold'']\<rparr>)
       (JStr ''gold'') (JStr ''Pyrite'') (JInt 2) =
     (Inl (Error ''a currency with the specified key already exists''),
      goldScript\<lparr>events := [CurrencyDefined ''gold'' ''Gold'' 1 ''currency_gold'']\<rparr>) \<and>
   filter (\<lambda>key. key = ''gold'')
     (getAllCurrencies (goldScript\<lparr>events := [CurrencyDefined ''gold'' ''Gold'' 1 ''currency_gold'']\<rparr>)) =
     [''gold''] \<and>
   getCurrency_registry (goldScript\<lparr>events := [CurrencyDefined ''gold'' ''Gold'' 1 ''currency_gold'']\<rparr>)
     ''gold'' = Some goldCurrency"
proof -
  let ?s1 = "goldScript\<lparr>events := [CurrencyDefined ''gold'' ''Gold'' 1 ''currency_gold'']\<rparr>"
  have r: "addCurrency emptyScript (JStr ''gold'') (JStr ''Gold'') (JInt 1) = (Inr goldCurrency, ?s1)"
    by code_simp
  have e: "fst (addCurrency ?s1 (JStr ''gold'') (JStr ''Pyrite'') (JInt 2)) =
             Inl (Error ''a currency with the specified key already exists'')"
    by code_simp
  note t = addCurrency_registered_key_rejected [of emptyScript "''gold''" "JStr ''Gold''" "JInt 1"
      goldCurrency ?s1 "JStr ''Pyrite''" "JInt 2", THEN conjunct2, THEN mp, OF r]
  from t [THEN conjunct1] e
  have "addCurrency ?s1 (JStr ''gold'') (JStr ''Pyrite'') (JInt 2) =
     (Inl (Error ''a currency with the specified key already exists''), ?s1)"
    by auto
  then show ?thesis using r t [THEN conjunct2] by (intro conjI) simp_all
qed

text \<open>
  C8 fails on the code for \<^verbatim>\<open>getCurrency\<close>: \<open>silver\<close> is not registered, and on the wallet
  \<^verbatim>\<open>{hasOwnProperty: 1}\<close>, which \<^verbatim>\<open>setCurrency\<close> has made, \<^verbatim>\<open>getCurrency("silver")\<close> throws
  a \<open>TypeError\<close> instead of returning 0. The two accessors of the registry return
  their defaults.
\<close>

theorem getCurrency_throws_on_shadowed_wallet:
  "\<not> hasCurrency (fst shadowed) ''silver'' \<and>
   wallet (snd shadowed) = [(''hasOwnProperty'', Finite 1)] \<and>
   getCurrency (snd shadowed) ''silver'' =
     Inl (TypeError ''this._wallet.hasOwnProperty is not a function'') \<and>
   getCurrencyName (fst shadowed) ''silver'' = ''Invalid Currency'' \<and>
   getCurrencySyncType (fst shadowed) ''silver'' = SYNC_TYPE_NONE"
  by code_simp

text \<open>
  C9. If the argument of \<^verbatim>\<open>setWallet\<close> is not a plain object (an array, \<open>null\<close>,
  \<open>undefined\<close>, a number, a string, a boolean), the call returns \<open>false\<close> and the
  registry with its events and the player with wallet and replication calls are as
  before. If it is an object, the call returns \<open>true\<close>, whatever its entries.
\<close>

theorem setWallet_checks_shape:
  "(\<not> isPlainObject v \<longrightarrow> setWallet s p v = (Inr False, s, p)) \<and>
   (isPlainObject v \<longrightarrow> fst (setWallet s p v) = Inr True)"
proof -
  have "isPlainObject v \<longrightarrow> fst (setWallet s p v) = Inr True"
  proof
    assume "isPlainObject v"
    then show "fst (setWallet s p v) = Inr True" by (simp add: setWallet_object)
  qed
  then show ?thesis by (simp add: setWallet_not_object)
qed

text \<open>An array and \<open>null\<close> are refused; an object none of whose entries survives is
  accepted, and empties the wallet.\<close>

theorem setWallet_checks_shape_witness:
  "setWallet goldScript (snd afterSet) (JArr [JInt 5]) = (Inr False, goldScript, snd afterSet) \<and>
   setWallet goldScript (snd afterSet) JNull = (Inr False, goldScript, snd afterSet) \<and>
   fst (setWallet goldScript (snd afterSet)
          (JObj [(''unknown_currency'', JInt 9), (''gold'', JFraction)] [])) = Inr True \<and>
   wallet (snd afterSet) = [(''gold'', Finite 100)] \<and>
   wallet (snd (snd (setWallet goldScript (snd afterSet)
          (JObj [(''unknown_currency'', JInt 9), (''gold'', JFraction)] [])))) = []"
proof -
  let ?obj = "JObj [(''unknown_currency'', JInt 9), (''gold'', JFraction)] []"
  have n1: "\<not> isPlainObject (JArr [JInt 5])" and n2: "\<not> isPlainObject JNull"
    and y: "isPlainObject ?obj"
    by simp_all
  have w: "wallet (snd afterSet) = [(''gold'', Finite 100)]"
    "wallet (snd (snd (setWallet goldScript (snd afterSet) ?obj))) = []"
    by code_simp+
  note a = setWallet_checks_shape [of "JArr [JInt 5]" goldScript "snd afterSet",
      THEN conjunct1, THEN mp, OF n1]
  note b = setWallet_checks_shape [of JNull goldScript "snd afterSet",
      THEN conjunct1, THEN mp, OF n2]
  note c = setWallet_checks_shape [of ?obj goldScript "snd afterSet",
      THEN conjunct2, THEN mp, OF y]
  from a b c w show ?thesis by (intro conjI)
qed

text \<open>
  C10. A successful \<^verbatim>\<open>setCurrency\<close> or \<^verbatim>\<open>changeCurrency\<close> on a key leaves every other
  key of the wallet as it was, present or absent, with its stored balance, and leaves
  the registry's currencies as they were. Unless the key is \<open>hasOwnProperty\<close>,
  \<^verbatim>\<open>getCurrency\<close> of every other key also returns what it returned before.
\<close>

theorem mutation_frame:
  "(setCurrency s p k v = (Inr True, s', p') \<longrightarrow>
      currencies s' = currencies s \<and>
      (\<forall>k'. k' \<noteq> k \<longrightarrow>
         map_of (wallet p') k' = map_of (wallet p) k' \<and>
         (k \<noteq> ''hasOwnProperty'' \<longrightarrow> getCurrency p' k' = getCurrency p k'))) \<and>
   (changeCurrency s p k v = (Inr True, s'', p'') \<longrightarrow>
      currencies s'' = currencies s \<and>
      (\<forall>k'. k' \<noteq> k \<longrightarrow>
         map_of (wallet p'') k' = map_of (wallet p) k' \<and>
         (k \<noteq> ''hasOwnProperty'' \<longrightarrow> getCurrency p'' k' = getCurrency p k')))"
proof -
  have frame: "\<forall>k'. k' \<noteq> k \<longrightarrow>
         map_of (wallet q) k' = map_of (wallet p) k' \<and>
         (k \<noteq> ''hasOwnProperty'' \<longrightarrow> getCurrency q k' = getCurrency p k')"
    if "q = p\<lparr>wallet := wallet_set (wallet p) k b, calls := c\<rparr>" for q b c
    using that by (simp add: map_of_wallet_set_other getCurrency_wallet_set_other)
  have a: "setCurrency s p k v = (Inr True, s', p') \<longrightarrow>
      currencies s' = currencies s \<and>
      (\<forall>k'. k' \<noteq> k \<longrightarrow>
         map_of (wallet p') k' = map_of (wallet p) k' \<and>
         (k \<noteq> ''hasOwnProperty'' \<longrightarrow> getCurrency p' k' = getCurrency p k'))"
  proof
    assume r: "setCurrency s p k v = (Inr True, s', p')"
    from setCurrency_outcome [OF r] obtain cur old where
      h: "s' = emit s (CurrencyUpdated (pid p) k old v ''setCurrency'')"
         "p' = p\<lparr>wallet := wallet_set (wallet p) k (Finite (intOf v)),
                 calls := calls p @ policyCalls cur v\<rparr>"
      by auto
    show "currencies s' = currencies s \<and>
      (\<forall>k'. k' \<noteq> k \<longrightarrow>
         map_of (wallet p') k' = map_of (wallet p) k' \<and>
         (k \<noteq> ''hasOwnProperty'' \<longrightarrow> getCurrency p' k' = getCurrency p k'))"
      using h(1) frame [OF h(2)] by (simp add: emit_currencies)
  qed
  have b: "changeCurrency s p k v = (Inr True, s'', p'') \<longrightarrow>
      currencies s'' = currencies s \<and>
      (\<forall>k'. k' \<noteq> k \<longrightarrow>
         map_of (wallet p'') k' = map_of (wallet p) k' \<and>
         (k \<noteq> ''hasOwnProperty'' \<longrightarrow> getCurrency p'' k' = getCurrency p k'))"
  proof
    assume r: "changeCurrency s p k v = (Inr True, s'', p'')"
    from changeCurrency_outcome [OF r] obtain cur old new where
      h: "s'' = emit s (CurrencyUpdated (pid p) k old new ''changeCurrency'')"
         "p'' = p\<lparr>wallet := wallet_set (wallet p) k (changedBalance p k (intOf v)),
                  calls := calls p @ policyCalls cur new\<rparr>"
      by auto
    show "currencies s'' = currencies s \<and>
      (\<forall>k'. k' \<noteq> k \<longrightarrow>
         map_of (wallet p'') k' = map_of (wallet p) k' \<and>
         (k \<noteq> ''hasOwnProperty'' \<longrightarrow> getCurrency p'' k' = getCurrency p k'))"
      using h(1) frame [OF h(2)] by (simp add: emit_currencies)
  qed
  from a b show ?thesis by (intro conjI)
qed

text \<open>A player holding 7 \<open>cash\<close> and 9 \<open>xp\<close>: setting \<open>gold\<close> and changing \<open>xp\<close> leave
  \<open>cash\<close>.\<close>

theorem mutation_frame_witness:
  "fst (setCurrency bankScript richPlayer ''gold'' (JInt 5)) = Inr True \<and>
   currencies (fst (snd (setCurrency bankScript richPlayer ''gold'' (JInt 5)))) = currencies bankScript \<and>
   map_of (wallet (snd (snd (setCurrency bankScript richPlayer ''gold'' (JInt 5))))) ''cash'' =
     Some (Finite 7) \<and>
   getCurrency (snd (snd (setCurrency bankScript richPlayer ''gold'' (JInt 5)))) ''cash'' =
     Inr (JInt 7) \<and>
   fst (changeCurrency bankScript richPlayer ''xp'' (JInt 1)) = Inr True \<and>
   currencies (fst (snd (changeCurrency bankScript richPlayer ''xp'' (JInt 1)))) = currencies bankScript \<and>
   map_of (wallet (snd (snd (changeCurrency bankScript richPlayer ''xp'' (JInt 1))))) ''cash'' =
     Some (Finite 7) \<and>
   getCurrency (snd (snd (changeCurrency bankScript richPlayer ''xp'' (JInt 1)))) ''cash'' =
     Inr (JInt 7)"
proof -
  let ?r1 = "setCurrency bankScript richPlayer ''gold'' (JInt 5)"
  let ?r2 = "changeCurrency bankScript richPlayer ''xp'' (JInt 1)"
  have ok1: "fst ?r1 = Inr True" and ok2: "fst ?r2 = Inr True" by code_simp+
  have r1: "?r1 = (Inr True, fst (snd ?r1), snd (snd ?r1))" using ok1 by (simp add: prod_eq_iff)
  have r2: "?r2 = (Inr True, fst (snd ?r2), snd (snd ?r2))" using ok2 by (simp add: prod_eq_iff)
  have g: "getCurrency richPlayer ''cash'' = Inr (JInt 7)"
    "map_of (wallet richPlayer) ''cash'' = Some (Finite 7)"
    by code_simp+
  have ne: "''cash'' \<noteq> ''gold''" "''cash'' \<noteq> ''xp''"
    "''gold'' \<noteq> ''hasOwnProperty''" "''xp'' \<noteq> ''hasOwnProperty''"
    by simp_all
  note a = mutation_frame [of bankScript richPlayer "''gold''" "JInt 5" "fst (snd ?r1)" "snd (snd ?r1)"
      "fst (snd ?r1)" "snd (snd ?r1)", THEN conjunct1, THEN mp, OF r1]
  note b = mutation_frame [of bankScript richPlayer "''xp''" "JInt 1" "fst (snd ?r2)" "snd (snd ?r2)"
      "fst (snd ?r2)" "snd (snd ?r2)", THEN conjunct2, THEN mp, OF r2]
  note a' = a [THEN conjunct2, THEN spec, of "''cash''", THEN mp, OF ne(1)]
  note b' = b [THEN conjunct2, THEN spec, of "''cash''", THEN mp, OF ne(2)]
  have a1: "map_of (wallet (snd (snd ?r1))) ''cash'' = Some (Finite 7)"
    using a' [THEN conjunct1] g(2) by simp
  have a2: "getCurrency (snd (snd ?r1)) ''cash'' = Inr (JInt 7)"
    using a' [THEN conjunct2, THEN mp, OF ne(3)] g(1) by simp
  have b1: "map_of (wallet (snd (snd ?r2))) ''cash'' = Some (Finite 7)"
    using b' [THEN conjunct1] g(2) by simp
  have b2: "getCurrency (snd (snd ?r2)) ''cash'' = Inr (JInt 7)"
    using b' [THEN conjunct2, THEN mp, OF ne(4)] g(1) by simp
  from ok1 ok2 a [THEN conjunct1] b [THEN conjunct1] a1 a2 b1 b2 show ?thesis by (intro conjI)
qed

end
